theory Spec2Isabelle
  imports Complex_Main "HOL-Library.List_Lexorder" "HOL-Library.Char_ord"
begin

section \<open>JavaScript values\<close>

text \<open>
  The rows the dashboards aggregate arrive as JSON, and the arithmetic of the two
  \<open>fetchDashboardData\<close> functions is JavaScript's: \<open>||\<close> returns one of its operands,
  \<open>+\<close> concatenates as soon as one operand is a string, \<open>-\<close> and \<open>Number\<close> convert to
  numbers first. The values are modelled with these rules.

  A number is a finite value or \<open>NaN\<close>. Finite values are taken as real numbers:
  rounding of doubles and overflow to an infinity are outside the model.
\<close>

datatype number = Num real | NaN

fun num_add :: "number \<Rightarrow> number \<Rightarrow> number" where
  "num_add (Num a) (Num b) = Num (a + b)"
| "num_add _ _ = NaN"

fun num_sub :: "number \<Rightarrow> number \<Rightarrow> number" where
  "num_sub (Num a) (Num b) = Num (a - b)"
| "num_sub _ _ = NaN"

datatype jsval = JNull | JUndefined | JBool bool | JNumber number | JString string

text \<open>
  The two conversions between strings and numbers are ECMAScript built-ins
  (\<open>StringToNumber\<close>, \<open>Number::toString\<close>). Their grammar is not part of the
  repository: the functions below take them as a parameter, and the theorems hold for
  every such pair.
\<close>

record js_env =
  StringToNumber :: "string \<Rightarrow> number"
  NumberToString :: "number \<Rightarrow> string"

fun truthy :: "jsval \<Rightarrow> bool" where
  "truthy JNull = False"
| "truthy JUndefined = False"
| "truthy (JBool b) = b"
| "truthy (JNumber (Num r)) = (r \<noteq> 0)"
| "truthy (JNumber NaN) = False"
| "truthy (JString s) = (s \<noteq> [])"

text \<open>\<open>a || b\<close>\<close>

definition js_or :: "jsval \<Rightarrow> jsval \<Rightarrow> jsval" where
  "js_or a b = (if truthy a then a else b)"

fun ToNumber :: "js_env \<Rightarrow> jsval \<Rightarrow> number" where
  "ToNumber env JNull = Num 0"
| "ToNumber env JUndefined = NaN"
| "ToNumber env (JBool b) = Num (if b then 1 else 0)"
| "ToNumber env (JNumber n) = n"
| "ToNumber env (JString s) = StringToNumber env s"

fun ToString :: "js_env \<Rightarrow> jsval \<Rightarrow> string" where
  "ToString env JNull = ''null''"
| "ToString env JUndefined = ''undefined''"
| "ToString env (JBool b) = (if b then ''true'' else ''false'')"
| "ToString env (JNumber n) = NumberToString env n"
| "ToString env (JString s) = s"

fun is_string :: "jsval \<Rightarrow> bool" where
  "is_string (JString s) = True"
| "is_string _ = False"

text \<open>\<open>a + b\<close>\<close>

definition js_add :: "js_env \<Rightarrow> jsval \<Rightarrow> jsval \<Rightarrow> jsval" where
  "js_add env a b =
     (if is_string a \<or> is_string b then JString (ToString env a @ ToString env b)
      else JNumber (num_add (ToNumber env a) (ToNumber env b)))"

text \<open>\<open>a - b\<close>\<close>

definition js_sub :: "js_env \<Rightarrow> jsval \<Rightarrow> jsval \<Rightarrow> jsval" where
  "js_sub env a b = JNumber (num_sub (ToNumber env a) (ToNumber env b))"

text \<open>\<open>Number(v)\<close>\<close>

definition Number_of :: "js_env \<Rightarrow> jsval \<Rightarrow> jsval" where
  "Number_of env v = JNumber (ToNumber env v)"

definition zero :: jsval where
  "zero = JNumber (Num 0)"

subsection \<open>A conversion pair for the examples\<close>

text \<open>
  The closed examples of this theory need one concrete pair. \<open>digits_env\<close> converts
  the empty string to \<open>0\<close>, a string of decimal digits to its value and every other
  string to \<open>NaN\<close>; it prints a natural number in decimal digits. These are the
  ECMAScript results on such arguments; the examples use no others.
\<close>

definition is_digit :: "char \<Rightarrow> bool" where
  "is_digit c = (c \<in> set ''0123456789'')"

definition digit_value :: "char \<Rightarrow> nat" where
  "digit_value c = of_char c - 48"

definition digits_StringToNumber :: "string \<Rightarrow> number" where
  "digits_StringToNumber s =
     (if list_all is_digit s
      then Num (of_nat (foldl (\<lambda>a c. 10 * a + digit_value c) 0 s)) else NaN)"

fun show_nat :: "nat \<Rightarrow> nat \<Rightarrow> string" where
  "show_nat 0 n = []"
| "show_nat (Suc fuel) n =
     (if n < 10 then [''0123456789'' ! n]
      else show_nat fuel (n div 10) @ [''0123456789'' ! (n mod 10)])"

definition digits_NumberToString :: "number \<Rightarrow> string" where
  "digits_NumberToString n =
     (case n of NaN \<Rightarrow> ''NaN''
      | Num r \<Rightarrow> (if r < 0 then CHR ''-'' # show_nat 22 (nat \<lfloor>- r\<rfloor>)
                  else show_nat 22 (nat \<lfloor>r\<rfloor>)))"

definition digits_env :: js_env where
  "digits_env =
     \<lparr>StringToNumber = digits_StringToNumber, NumberToString = digits_NumberToString\<rparr>"

section \<open>Rows, gateway and notifications\<close>

text \<open>
  \<open>interface Transacao\<close> and \<open>interface Lembrete\<close> of \<open>src/pages/Dashboard.tsx\<close>.
  The declared field types are compile-time annotations of JSON objects, so every field
  holds a \<open>jsval\<close>; a field that is absent from the object reads as \<open>JUndefined\<close>.
\<close>

record Transacao =
  id_t :: jsval
  created_at_t :: jsval
  quando :: jsval
  estabelecimento :: jsval
  valor_t :: jsval
  detalhes :: jsval
  tipo :: jsval
  categoria :: jsval
  userid_t :: jsval

record Lembrete =
  id_l :: jsval
  created_at_l :: jsval
  userid_l :: jsval
  descricao :: jsval
  data_l :: jsval
  valor_l :: jsval

text \<open>The user object of \<open>useAuth\<close>; only its \<open>id\<close> is read.\<close>

record User =
  user_id :: string

text \<open>\<open>user?.id\<close> as a value, and its truthiness.\<close>

definition opt_id :: "User option \<Rightarrow> jsval" where
  "opt_id user = (case user of None \<Rightarrow> JUndefined | Some u \<Rightarrow> JString (user_id u))"

definition has_id :: "User option \<Rightarrow> bool" where
  "has_id user = truthy (opt_id user)"

text \<open>
  A query as the builder calls of the source assemble it: \<open>from\<close>, \<open>select\<close>, the
  filters \<open>eq\<close>, \<open>gte\<close>, \<open>lte\<close> in call order, \<open>order\<close> (field, ascending) and \<open>limit\<close>.
\<close>

datatype qfilter = Eq string jsval | Gte string string | Lte string string

record query =
  from_table :: string
  select_columns :: string
  filters :: "qfilter list"
  order_by :: "(string \<times> bool) option"
  row_limit :: "nat option"

record PostgrestError =
  message :: string

text \<open>What awaiting a query yields: \<open>{ data, error }\<close>.\<close>

record 'r response =
  data :: "'r list option"
  error :: "PostgrestError option"

text \<open>
  The remote gateway: whatever it answers to a query on each table. The shape of a
  transaction row depends on the \<open>select\<close>, so it is a type parameter.
\<close>

record 't gateway =
  transacoes_table :: "query \<Rightarrow> 't response"
  lembretes_table :: "query \<Rightarrow> Lembrete response"

record toast =
  title :: string
  description :: string
  variant :: string

text \<open>
  The effects a component leaves behind, in order: toasts shown, queries sent to the
  gateway, \<open>console.error\<close> lines.
\<close>

record effects =
  toasts :: "toast list"
  issued :: "query list"
  console_errors :: "string list"

section \<open>Calendar dates and the \<open>Date\<close> object\<close>

text \<open>A calendar date: year, month (1 to 12), day of the month.\<close>

type_synonym date = "int \<times> int \<times> int"

definition is_leap :: "int \<Rightarrow> bool" where
  "is_leap y =
     (if y mod 400 = 0 then True else if y mod 100 = 0 then False else y mod 4 = 0)"

definition days_in_month :: "int \<Rightarrow> int \<Rightarrow> int" where
  "days_in_month y m =
     (if m = 2 then (if is_leap y then 29 else 28)
      else if m = 4 \<or> m = 6 \<or> m = 9 \<or> m = 11 then 30 else 31)"

fun next_day :: "date \<Rightarrow> date" where
  "next_day (y, m, d) =
     (if d < days_in_month y m then (y, m, d + 1)
      else if m < 12 then (y, m + 1, 1) else (y + 1, 1, 1))"

fun prev_day :: "date \<Rightarrow> date" where
  "prev_day (y, m, d) =
     (if 1 < d then (y, m, d - 1)
      else if 1 < m then (y, m - 1, days_in_month y (m - 1)) else (y - 1, 12, 31))"

definition add_days :: "int \<Rightarrow> date \<Rightarrow> date" where
  "add_days k dt = (if 0 \<le> k then (next_day ^^ nat k) dt else (prev_day ^^ nat (- k)) dt)"

text \<open>
  A \<open>Date\<close> object is kept as its local calendar date and second of the day.
  \<open>new Date(year, monthIndex, day, hours, minutes, seconds)\<close> reads its arguments in
  local time: years 0 to 99 mean 1900 to 1999, a month index outside 0 to 11 carries into
  the year, and the day counts from the first of that month, so day 0 is the last day of
  the month before.
\<close>

type_synonym datetime = "date \<times> int"

definition full_year :: "int \<Rightarrow> int" where
  "full_year y = (if 0 \<le> y \<and> y \<le> 99 then 1900 + y else y)"

definition new_Date :: "int \<Rightarrow> int \<Rightarrow> int \<Rightarrow> int \<Rightarrow> int \<Rightarrow> int \<Rightarrow> datetime" where
  "new_Date year monthIndex day hours minutes seconds =
     (let secs = hours * 3600 + minutes * 60 + seconds
      in (add_days (day - 1 + secs div 86400)
            (full_year year + monthIndex div 12, monthIndex mod 12 + 1, 1),
          secs mod 86400))"

text \<open>
  The time zone of the browser: the minutes to add to a local time to reach UTC
  (\<open>getTimezoneOffset\<close>; 180 in Brasilia, negative east of Greenwich).
\<close>

type_synonym timezone = "datetime \<Rightarrow> int"

definition digit :: "int \<Rightarrow> char" where
  "digit n = ''0123456789'' ! nat n"

definition pad2 :: "int \<Rightarrow> string" where
  "pad2 n = [digit (n div 10 mod 10), digit (n mod 10)]"

definition pad4 :: "int \<Rightarrow> string" where
  "pad4 n = [digit (n div 1000 mod 10), digit (n div 100 mod 10),
             digit (n div 10 mod 10), digit (n mod 10)]"

definition pad6 :: "int \<Rightarrow> string" where
  "pad6 n = [digit (n div 100000 mod 10), digit (n div 10000 mod 10),
             digit (n div 1000 mod 10), digit (n div 100 mod 10),
             digit (n div 10 mod 10), digit (n mod 10)]"

definition iso_year :: "int \<Rightarrow> string" where
  "iso_year y =
     (if 0 \<le> y \<and> y \<le> 9999 then pad4 y
      else (if y < 0 then CHR ''-'' else CHR ''+'') # pad6 \<bar>y\<bar>)"

fun iso_date :: "date \<Rightarrow> string" where
  "iso_date (y, m, d) = iso_year y @ ''-'' @ pad2 m @ ''-'' @ pad2 d"

text \<open>
  \<open>d.toISOString().split('T')[0]\<close>: the calendar date, in UTC, of the instant \<open>d\<close>.
\<close>

fun toISOString_day :: "timezone \<Rightarrow> datetime \<Rightarrow> string" where
  "toISOString_day tz (dt, secs) =
     iso_date (add_days ((secs + tz (dt, secs) * 60) div 86400) dt)"


section \<open>The dashboard with the month and year selector (\<open>src/pages/Dashboard.tsx\<close>)\<close>

record DashboardStats =
  totalReceitas :: jsval
  totalDespesas :: jsval
  saldo :: jsval
  transacoesCount :: nat
  lembretesCount :: nat

text \<open>
  The state of the component (the \<open>useState\<close> cells of lines 42 to 53), on top of the
  effects. The two filter cells hold the decimal text of an integer; \<open>parseInt\<close> reads
  it back, and the model keeps the integer.
\<close>

record Dashboard = effects +
  stats :: DashboardStats
  transacoes :: "Transacao list"
  lembretes :: "Lembrete list"
  loading :: bool
  filterMonth :: int
  filterYear :: int

text \<open>The initial state of lines 42 to 53, for the month index and year of today.\<close>

definition Dashboard_init :: "int \<Rightarrow> int \<Rightarrow> Dashboard" where
  "Dashboard_init m y =
     \<lparr>toasts = [], issued = [], console_errors = [],
      stats = \<lparr>totalReceitas = zero, totalDespesas = zero, saldo = zero,
               transacoesCount = 0, lembretesCount = 0\<rparr>,
      transacoes = [], lembretes = [], loading = True,
      filterMonth = m, filterYear = y\<rparr>"

text \<open>The two queries of lines 80 to 86 and 96 to 102.\<close>

definition transacoes_query :: "string \<Rightarrow> string \<Rightarrow> string \<Rightarrow> query" where
  "transacoes_query uid lo hi =
     \<lparr>from_table = ''transacoes'', select_columns = ''*'',
      filters = [Eq ''userid'' (JString uid), Gte ''quando'' lo, Lte ''quando'' hi],
      order_by = Some (''quando'', False), row_limit = None\<rparr>"

definition lembretes_query :: "string \<Rightarrow> string \<Rightarrow> string \<Rightarrow> query" where
  "lembretes_query uid lo hi =
     \<lparr>from_table = ''lembretes'', select_columns = ''*'',
      filters = [Eq ''userid'' (JString uid), Gte ''data'' lo, Lte ''data'' hi],
      order_by = Some (''data'', True), row_limit = None\<rparr>"

text \<open>
  Lines 115 and 116:
  \<open>transacoes?.filter(t => t.tipo === k).reduce((sum, t) => sum + (t.valor || 0), 0) || 0\<close>.
\<close>

definition total_of :: "js_env \<Rightarrow> string \<Rightarrow> Transacao list option \<Rightarrow> jsval" where
  "total_of env k ts =
     js_or (case ts of
              None \<Rightarrow> JUndefined
            | Some rows \<Rightarrow>
                foldl (\<lambda>sum t. js_add env sum (js_or (valor_t t) zero)) zero
                  (filter (\<lambda>t. tipo t = JString k) rows))
       zero"

text \<open>\<open>rows?.length || 0\<close> and \<open>rows || []\<close>\<close>

definition length_or_0 :: "'a list option \<Rightarrow> nat" where
  "length_or_0 rows = (case rows of None \<Rightarrow> 0 | Some xs \<Rightarrow> length xs)"

definition rows_or_empty :: "'a list option \<Rightarrow> 'a list" where
  "rows_or_empty rows = (case rows of None \<Rightarrow> [] | Some xs \<Rightarrow> xs)"

text \<open>Lines 115 to 124: \<open>newStats\<close>.\<close>

definition newStats ::
  "js_env \<Rightarrow> Transacao list option \<Rightarrow> Lembrete list option \<Rightarrow> DashboardStats" where
  "newStats env ts ls =
     (let receitas = total_of env ''receita'' ts;
          despesas = total_of env ''despesa'' ts
      in \<lparr>totalReceitas = receitas, totalDespesas = despesas,
          saldo = js_sub env receitas despesas,
          transacoesCount = length_or_0 ts, lembretesCount = length_or_0 ls\<rparr>)"

text \<open>
  \<open>fetchDashboardData\<close> (lines 62 to 139) runs in three stretches, cut at its two
  \<open>await\<close>s. The user and the two filters are those of the render that made the
  call; the state is the component's, which every call writes through the same setters.

  The \<open>catch\<close> block of lines 129 to 135 followed by \<open>finally\<close>:
\<close>

definition error_toast :: "PostgrestError \<Rightarrow> toast" where
  "error_toast e =
     \<lparr>title = ''Erro ao carregar dados'',
      description = (if message e = [] then
         ''Erro desconhecido ao carregar dados do dashboard'' else message e),
      variant = ''destructive''\<rparr>"

definition catch_finally :: "PostgrestError \<Rightarrow> Dashboard \<Rightarrow> Dashboard" where
  "catch_finally e s =
     s\<lparr>console_errors := console_errors s @ [''Dashboard: Error loading data:''],
       toasts := toasts s @ [error_toast e],
       loading := False\<rparr>"

text \<open>Lines 74 and 75: the first and the last instant of the selected month, local time.\<close>

definition startDate :: "int \<Rightarrow> int \<Rightarrow> datetime" where
  "startDate fYear fMonth = new_Date fYear fMonth 1 0 0 0"

definition endDate :: "int \<Rightarrow> int \<Rightarrow> datetime" where
  "endDate fYear fMonth = new_Date fYear (fMonth + 1) 0 23 59 59"

text \<open>The request a call is waiting for, with what the rest of the call still needs.\<close>

datatype pending =
  AwaitTransacoes string string string
| AwaitLembretes "Transacao list option"

text \<open>Lines 63 to 86: up to the first \<open>await\<close>.\<close>

definition fetch_begin ::
  "timezone \<Rightarrow> User option \<Rightarrow> int \<Rightarrow> int \<Rightarrow> Dashboard \<Rightarrow> Dashboard \<times> pending option" where
  "fetch_begin tz user fMonth fYear s =
     (case user of
        None \<Rightarrow>
          (s\<lparr>console_errors := console_errors s @ [''Dashboard: No user ID available''],
             loading := False\<rparr>, None)
      | Some u \<Rightarrow>
          if \<not> has_id user then
            (s\<lparr>console_errors := console_errors s @ [''Dashboard: No user ID available''],
               loading := False\<rparr>, None)
          else
            let lo = toISOString_day tz (startDate fYear fMonth);
                hi = toISOString_day tz (endDate fYear fMonth)
            in (s\<lparr>loading := True,
                   issued := issued s @ [transacoes_query (user_id u) lo hi]\<rparr>,
                Some (AwaitTransacoes (user_id u) lo hi)))"

text \<open>Lines 88 to 102: from the answer to the first query up to the second \<open>await\<close>.\<close>

definition on_transacoes ::
  "string \<Rightarrow> string \<Rightarrow> string \<Rightarrow> Transacao response \<Rightarrow> Dashboard \<Rightarrow> Dashboard \<times> pending option"
  where
  "on_transacoes uid lo hi r s =
     (case error r of
        Some e \<Rightarrow>
          (catch_finally e
             (s\<lparr>console_errors :=
                  console_errors s @ [''Dashboard: Error fetching transactions:'']\<rparr>),
           None)
      | None \<Rightarrow>
          (s\<lparr>issued := issued s @ [lembretes_query uid lo hi]\<rparr>,
           Some (AwaitLembretes (data r))))"

text \<open>Lines 104 to 138: from the answer to the second query to the end.\<close>

definition on_lembretes ::
  "js_env \<Rightarrow> Transacao list option \<Rightarrow> Lembrete response \<Rightarrow> Dashboard \<Rightarrow> Dashboard" where
  "on_lembretes env ts r s =
     (case error r of
        Some e \<Rightarrow>
          catch_finally e
            (s\<lparr>console_errors :=
                 console_errors s @ [''Dashboard: Error fetching lembretes:'']\<rparr>)
      | None \<Rightarrow>
          s\<lparr>transacoes := rows_or_empty ts,
            lembretes := rows_or_empty (data r),
            stats := newStats env ts (data r),
            loading := False\<rparr>)"

text \<open>One call that runs to its end without another one in between.\<close>

definition fetchDashboardData ::
  "js_env \<Rightarrow> timezone \<Rightarrow> Transacao gateway \<Rightarrow> User option \<Rightarrow> int \<Rightarrow> int \<Rightarrow>
     Dashboard \<Rightarrow> Dashboard"
  where
  "fetchDashboardData env tz gw user fMonth fYear s =
     (case fetch_begin tz user fMonth fYear s of
        (s1, Some (AwaitTransacoes uid lo hi)) \<Rightarrow>
          (case on_transacoes uid lo hi (transacoes_table gw (transacoes_query uid lo hi)) s1 of
             (s2, Some (AwaitLembretes ts)) \<Rightarrow>
               on_lembretes env ts (lembretes_table gw (lembretes_query uid lo hi)) s2
           | (s2, _) \<Rightarrow> s2)
      | (s1, _) \<Rightarrow> s1)"

text \<open>The effect of lines 55 to 60, run on mount and when a dependency changes.\<close>

definition useEffect ::
  "js_env \<Rightarrow> timezone \<Rightarrow> Transacao gateway \<Rightarrow> User option \<Rightarrow> Dashboard \<Rightarrow> Dashboard" where
  "useEffect env tz gw user s =
     (if has_id user then fetchDashboardData env tz gw user (filterMonth s) (filterYear s) s
      else s)"

text \<open>What the component returns (lines 141 to 192).\<close>

datatype view =
  LoadingSkeleton
| UserNotFound
| Panels DashboardStats "Transacao list" "Lembrete list"

definition render :: "User option \<Rightarrow> Dashboard \<Rightarrow> view" where
  "render user s =
     (if loading s then LoadingSkeleton
      else if \<not> has_id user then UserNotFound
      else Panels (stats s) (transacoes s) (lembretes s))"

subsection \<open>Calls that overlap\<close>

text \<open>
  A call is suspended at each \<open>await\<close>, and the component goes on: the filter widget
  can set a new month or year, which runs the effect again and starts another call while
  the first one waits. The calls are numbered in the order they start; each answer of the
  gateway resumes the call it belongs to. Answers may come in any order.
\<close>

datatype event =
  Run_effect "User option"
| Select_filter int int
| Answer_transacoes nat "Transacao response"
| Answer_lembretes nat "Lembrete response"

type_synonym running = "Dashboard \<times> pending option list"

fun step :: "js_env \<Rightarrow> timezone \<Rightarrow> event \<Rightarrow> running \<Rightarrow> running" where
  "step env tz (Run_effect user) (s, calls) =
     (if has_id user then
        (case fetch_begin tz user (filterMonth s) (filterYear s) s of
           (s', p) \<Rightarrow> (s', calls @ [p]))
      else (s, calls))"
| "step env tz (Select_filter m y) (s, calls) =
     (s\<lparr>filterMonth := m, filterYear := y\<rparr>, calls)"
| "step env tz (Answer_transacoes i r) (s, calls) =
     (if i < length calls then
        (case calls ! i of
           Some (AwaitTransacoes uid lo hi) \<Rightarrow>
             (case on_transacoes uid lo hi r s of (s', p) \<Rightarrow> (s', calls[i := p]))
         | _ \<Rightarrow> (s, calls))
      else (s, calls))"
| "step env tz (Answer_lembretes i r) (s, calls) =
     (if i < length calls then
        (case calls ! i of
           Some (AwaitLembretes ts) \<Rightarrow> (on_lembretes env ts r s, calls[i := None])
         | _ \<Rightarrow> (s, calls))
      else (s, calls))"

definition run :: "js_env \<Rightarrow> timezone \<Rightarrow> event list \<Rightarrow> running \<Rightarrow> running" where
  "run env tz evs st = foldl (\<lambda>st e. step env tz e st) st evs"

section \<open>The dashboard of the current month (second listing in \<open>src/lib/supabase.ts\<close>)\<close>

text \<open>
  This component is a second \<open>Dashboard\<close> with its own \<open>fetchDashboardData\<close>; its
  names carry the suffix \<open>_cm\<close>. Its transaction rows are those of the table with the
  joined \<open>categorias\<close> object, an extension of \<open>Transacao\<close>: the functions below accept
  every extension.
\<close>

record 't DashboardStats_cm =
  totalReceitas_cm :: jsval
  totalDespesas_cm :: jsval
  saldo_cm :: jsval
  transacoesRecentes :: "'t list"
  lembretesProximos :: "Lembrete list"

record 't Dashboard_cm = effects +
  stats_cm :: "'t DashboardStats_cm"
  loading_cm :: bool

definition Dashboard_cm_init :: "'t Dashboard_cm" where
  "Dashboard_cm_init =
     \<lparr>toasts = [], issued = [], console_errors = [],
      stats_cm = \<lparr>totalReceitas_cm = zero, totalDespesas_cm = zero, saldo_cm = zero,
                  transacoesRecentes = [], lembretesProximos = []\<rparr>,
      loading_cm = True\<rparr>"

text \<open>Lines 71 to 82 and 94 to 100.\<close>

definition transacoes_query_cm :: "jsval \<Rightarrow> string \<Rightarrow> query" where
  "transacoes_query_cm uid currentMonth =
     \<lparr>from_table = ''transacoes'', select_columns = ''*, categorias (nome)'',
      filters = [Eq ''userid'' uid, Gte ''quando'' (currentMonth @ ''-01''),
                 Lte ''quando'' (currentMonth @ ''-31'')],
      order_by = Some (''created_at'', False), row_limit = None\<rparr>"

definition lembretes_query_cm :: "jsval \<Rightarrow> string \<Rightarrow> query" where
  "lembretes_query_cm uid today =
     \<lparr>from_table = ''lembretes'', select_columns = ''*'',
      filters = [Eq ''userid'' uid, Gte ''data'' today],
      order_by = Some (''data'', True), row_limit = Some 5\<rparr>"

text \<open>
  Lines 87 to 91: \<open>transacoes?.filter(t => t.tipo === k) || []\<close>, then
  \<open>reduce((acc, t) => acc + (Number(t.valor) || 0), 0)\<close>.
\<close>

definition of_kind :: "string \<Rightarrow> ('a Transacao_scheme) list option \<Rightarrow> ('a Transacao_scheme) list"
  where
  "of_kind k ts = (case ts of None \<Rightarrow> [] | Some rows \<Rightarrow> filter (\<lambda>t. tipo t = JString k) rows)"

definition total_cm :: "js_env \<Rightarrow> ('a Transacao_scheme) list \<Rightarrow> jsval" where
  "total_cm env rows =
     foldl (\<lambda>acc t. js_add env acc (js_or (Number_of env (valor_t t)) zero)) zero rows"

text \<open>Lines 87 to 91 and 104 to 110: the summary that \<open>setStats\<close> receives.\<close>

definition newStats_cm ::
  "js_env \<Rightarrow> ('a Transacao_scheme) list option \<Rightarrow> Lembrete list option \<Rightarrow>
     ('a Transacao_scheme) DashboardStats_cm" where
  "newStats_cm env ts ls =
     (let receitas = of_kind ''receita'' ts;
          despesas = of_kind ''despesa'' ts;
          total_receitas = total_cm env receitas;
          total_despesas = total_cm env despesas
      in \<lparr>totalReceitas_cm = total_receitas,
          totalDespesas_cm = total_despesas,
          saldo_cm = js_sub env total_receitas total_despesas,
          transacoesRecentes = (case ts of None \<Rightarrow> [] | Some rows \<Rightarrow> take 5 rows),
          lembretesProximos = rows_or_empty ls\<rparr>)"

text \<open>The \<open>catch\<close> block of lines 111 to 117 followed by \<open>finally\<close>.\<close>

definition error_toast_cm :: "PostgrestError \<Rightarrow> toast" where
  "error_toast_cm e =
     \<lparr>title = ''Erro ao carregar dados'', description = message e,
      variant = ''destructive''\<rparr>"

definition catch_finally_cm :: "PostgrestError \<Rightarrow> 't Dashboard_cm \<Rightarrow> 't Dashboard_cm" where
  "catch_finally_cm e s =
     s\<lparr>console_errors := console_errors s @ [''Erro ao carregar dados do dashboard:''],
       toasts := toasts s @ [error_toast_cm e],
       loading_cm := False\<rparr>"

text \<open>
  \<open>fetchDashboardData\<close>, lines 64 to 121. \<open>new Date()\<close> is read twice, before each
  query: \<open>d1\<close> and \<open>d2\<close> are the UTC calendar dates of the two instants.
\<close>

definition fetchDashboardData_cm ::
  "js_env \<Rightarrow> date \<Rightarrow> date \<Rightarrow> ('a Transacao_scheme) gateway \<Rightarrow> User option \<Rightarrow>
     ('a Transacao_scheme) Dashboard_cm \<Rightarrow> ('a Transacao_scheme) Dashboard_cm" where
  "fetchDashboardData_cm env d1 d2 gw user s =
     (let currentMonth = take 7 (iso_date d1);
          q1 = transacoes_query_cm (opt_id user) currentMonth;
          s1 = s\<lparr>loading_cm := True, issued := issued s @ [q1]\<rparr>;
          r1 = transacoes_table gw q1
      in case error r1 of
           Some e \<Rightarrow> catch_finally_cm e s1
         | None \<Rightarrow>
             (let q2 = lembretes_query_cm (opt_id user) (iso_date d2);
                  s2 = s1\<lparr>issued := issued s1 @ [q2]\<rparr>;
                  r2 = lembretes_table gw q2
              in (case error r2 of
                    Some e \<Rightarrow> catch_finally_cm e s2
                  | None \<Rightarrow>
                      s2\<lparr>stats_cm := newStats_cm env (data r1) (data r2),
                         loading_cm := False\<rparr>)))"

text \<open>The effect of lines 58 to 62.\<close>

definition useEffect_cm ::
  "js_env \<Rightarrow> date \<Rightarrow> date \<Rightarrow> ('a Transacao_scheme) gateway \<Rightarrow> User option \<Rightarrow>
     ('a Transacao_scheme) Dashboard_cm \<Rightarrow> ('a Transacao_scheme) Dashboard_cm" where
  "useEffect_cm env d1 d2 gw user s =
     (case user of None \<Rightarrow> s | Some u \<Rightarrow> fetchDashboardData_cm env d1 d2 gw user s)"

datatype 't view_cm = Spinner | Cards "'t DashboardStats_cm"

definition render_cm :: "'t Dashboard_cm \<Rightarrow> 't view_cm" where
  "render_cm s = (if loading_cm s then Spinner else Cards (stats_cm s))"

section \<open>The profile card (\<open>src/components/layout/UserProfile.tsx\<close>)\<close>

record UserProfile =
  nome :: string
  phone :: string
  avatar_url :: "string option"

text \<open>What awaiting a query that ends in \<open>single()\<close> yields.\<close>

record 'r single_response =
  single_data :: "'r option"
  single_error :: "PostgrestError option"

record UserProfile_state = effects +
  profile :: "UserProfile option"

definition UserProfile_init :: UserProfile_state where
  "UserProfile_init = \<lparr>toasts = [], issued = [], console_errors = [], profile = None\<rparr>"

definition profiles_query :: "jsval \<Rightarrow> query" where
  "profiles_query uid =
     \<lparr>from_table = ''profiles'', select_columns = ''nome, phone, avatar_url'',
      filters = [Eq ''id'' uid], order_by = None, row_limit = None\<rparr>"

text \<open>How a block of statements ends: it runs to its end, or it throws.\<close>

datatype 's outcome = Returned 's | Thrown PostgrestError 's

text \<open>The \<open>try\<close> block of lines 26 to 33.\<close>

definition fetchProfile_try ::
  "(query \<Rightarrow> UserProfile single_response) \<Rightarrow> User option \<Rightarrow> UserProfile_state \<Rightarrow>
     UserProfile_state outcome" where
  "fetchProfile_try profiles_table user s =
     (let q = profiles_query (opt_id user);
          s1 = s\<lparr>issued := issued s @ [q]\<rparr>;
          r = profiles_table q
      in case single_error r of
           Some e \<Rightarrow> Thrown e s1
         | None \<Rightarrow> Returned (s1\<lparr>profile := single_data r\<rparr>))"

text \<open>\<open>fetchProfile\<close>, lines 24 to 37: the \<open>try\<close> block under its \<open>catch\<close>.\<close>

definition fetchProfile ::
  "(query \<Rightarrow> UserProfile single_response) \<Rightarrow> User option \<Rightarrow> UserProfile_state \<Rightarrow>
     UserProfile_state outcome" where
  "fetchProfile profiles_table user s =
     (case fetchProfile_try profiles_table user s of
        Returned s' \<Rightarrow> Returned s'
      | Thrown e s' \<Rightarrow>
          Returned (s'\<lparr>console_errors := console_errors s' @ [''Erro ao carregar perfil:'']\<rparr>))"

fun state_of :: "'s outcome \<Rightarrow> 's" where
  "state_of (Returned s) = s"
| "state_of (Thrown e s) = s"

fun threw :: "'s outcome \<Rightarrow> bool" where
  "threw (Returned s) = False"
| "threw (Thrown e s) = True"

text \<open>The effect of lines 18 to 22.\<close>

definition useEffect_profile ::
  "(query \<Rightarrow> UserProfile single_response) \<Rightarrow> User option \<Rightarrow> UserProfile_state \<Rightarrow>
     UserProfile_state outcome" where
  "useEffect_profile profiles_table user s =
     (case user of None \<Rightarrow> Returned s | Some u \<Rightarrow> fetchProfile profiles_table user s)"

text \<open>The component returns \<open>null\<close> or the link with the card (lines 39 to 65).\<close>

datatype profile_view = Null | ProfileLink UserProfile

definition render_profile :: "UserProfile_state \<Rightarrow> profile_view" where
  "render_profile s = (case profile s of None \<Rightarrow> Null | Some p \<Rightarrow> ProfileLink p)"

section \<open>Notions the properties are stated with\<close>

text \<open>
  The amount of a transaction as a number: the finite number its \<open>valor\<close> holds, and 0
  when it holds none.
\<close>

fun amount :: "jsval \<Rightarrow> real" where
  "amount (JNumber (Num r)) = r"
| "amount _ = 0"

text \<open>The values the declared type \<open>number | null\<close> leaves room for, and a missing field.\<close>

fun is_amount :: "jsval \<Rightarrow> bool" where
  "is_amount (JNumber n) = True"
| "is_amount JNull = True"
| "is_amount JUndefined = True"
| "is_amount _ = False"



definition of_tipo :: "string \<Rightarrow> ('a Transacao_scheme) list \<Rightarrow> ('a Transacao_scheme) list" where
  "of_tipo k T = filter (\<lambda>t. tipo t = JString k) T"

definition sum_amounts :: "('a Transacao_scheme) list \<Rightarrow> real" where
  "sum_amounts T = sum_list (map (\<lambda>t. amount (valor_t t)) T)"

text \<open>
  The two queries a call of \<open>fetchDashboardData\<close> sends for a user, a year and a month
  index, in \<open>Dashboard.tsx\<close>; and the two of the current-month dashboard.
\<close>

definition first_query :: "timezone \<Rightarrow> User \<Rightarrow> int \<Rightarrow> int \<Rightarrow> query" where
  "first_query tz u fYear fMonth =
     transacoes_query (user_id u) (toISOString_day tz (startDate fYear fMonth))
       (toISOString_day tz (endDate fYear fMonth))"

definition second_query :: "timezone \<Rightarrow> User \<Rightarrow> int \<Rightarrow> int \<Rightarrow> query" where
  "second_query tz u fYear fMonth =
     lembretes_query (user_id u) (toISOString_day tz (startDate fYear fMonth))
       (toISOString_day tz (endDate fYear fMonth))"

definition first_query_cm :: "User option \<Rightarrow> date \<Rightarrow> query" where
  "first_query_cm user d1 = transacoes_query_cm (opt_id user) (take 7 (iso_date d1))"

definition second_query_cm :: "User option \<Rightarrow> date \<Rightarrow> query" where
  "second_query_cm user d2 = lembretes_query_cm (opt_id user) (iso_date d2)"



section \<open>Example data\<close>

text \<open>
  The data of the closed examples: rows of a user \<open>A\<close> and of a user \<open>B\<close>, gateways
  that answer every query with the same rows or with an error, two time zones, and a
  schedule of two calls that overlap.
\<close>

definition example_row :: "string \<Rightarrow> jsval \<Rightarrow> string \<Rightarrow> Transacao" where
  "example_row k v u =
     \<lparr>id_t = JNumber (Num 1), created_at_t = JString ''2024-04-02T10:00:00Z'',
      quando = JString ''2024-04-30'', estabelecimento = JNull, valor_t = v,
      detalhes = JNull, tipo = JString k, categoria = JNull, userid_t = JString u\<rparr>"

definition example_rows :: "Transacao list" where
  "example_rows =
     [example_row ''receita'' (JNumber (Num 10)) ''A'',
      example_row ''despesa'' (JNumber (Num 4)) ''A'']"

definition example_user :: User where
  "example_user = \<lparr>user_id = ''A''\<rparr>"

definition answer :: "'r list \<Rightarrow> 'r response" where
  "answer rows = \<lparr>data = Some rows, error = None\<rparr>"

definition failure :: "string \<Rightarrow> 'r response" where
  "failure msg = \<lparr>data = None, error = Some \<lparr>message = msg\<rparr>\<rparr>"

definition example_gateway :: "Transacao list \<Rightarrow> Transacao gateway" where
  "example_gateway rows =
     \<lparr>transacoes_table = (\<lambda>q. answer rows), lembretes_table = (\<lambda>q. answer [])\<rparr>"

definition failing_gateway :: "Transacao gateway" where
  "failing_gateway =
     \<lparr>transacoes_table = (\<lambda>q. failure ''timeout''), lembretes_table = (\<lambda>q. answer [])\<rparr>"

definition brasilia :: timezone where
  "brasilia = (\<lambda>t. 180)"

definition rowB :: Transacao where
  "rowB = example_row ''receita'' (JNumber (Num 5)) ''B''"

definition six_rows :: "Transacao list" where
  "six_rows = replicate 6 (example_row ''despesa'' (JNumber (Num 1)) ''A'')"

definition example_profile :: UserProfile where
  "example_profile = \<lparr>nome = ''Ana Lima'', phone = ''5511999990000'', avatar_url = None\<rparr>"

definition failing_profiles :: "query \<Rightarrow> UserProfile single_response" where
  "failing_profiles q = \<lparr>single_data = None, single_error = Some \<lparr>message = ''timeout''\<rparr>\<rparr>"




section \<open>Totals\<close>

lemma js_or_zero_amount:
  "is_amount v \<Longrightarrow> js_or v zero = JNumber (Num (amount v))"
  by (cases v rule: is_amount.cases) (auto simp: js_or_def zero_def elim: truthy.elims)

lemma foldl_sum_amounts:
  "\<forall>t\<in>set rows. is_amount (valor_t t) \<Longrightarrow>
   foldl (\<lambda>sum t. js_add env sum (js_or (valor_t t) zero)) (JNumber (Num a)) rows
     = JNumber (Num (a + sum_amounts rows))"
proof (induction rows arbitrary: a)
  case Nil
  then show ?case by (simp add: sum_amounts_def)
next
  case (Cons t rows)
  have "js_add env (JNumber (Num a)) (js_or (valor_t t) zero) = JNumber (Num (a + amount (valor_t t)))"
    using Cons.prems by (simp add: js_or_zero_amount js_add_def)
  then show ?case using Cons by (simp add: sum_amounts_def add.assoc)
qed

lemma js_or_num_zero: "js_or (JNumber (Num r)) zero = JNumber (Num r)"
  by (simp add: js_or_def zero_def)

lemma total_of_amounts:
  assumes "\<forall>t\<in>set T. is_amount (valor_t t)"
  shows "total_of env k (Some T) = JNumber (Num (sum_amounts (of_tipo k T)))"
proof -
  have "\<forall>t\<in>set (of_tipo k T). is_amount (valor_t t)"
    using assms by (simp add: of_tipo_def)
  then show ?thesis
    using foldl_sum_amounts [of "of_tipo k T" env 0]
    by (simp add: total_of_def zero_def [symmetric] js_or_num_zero of_tipo_def)
qed

text \<open>In the current-month dashboard every contribution is a finite number.\<close>

lemma js_or_Number_of:
  "js_or (Number_of env v) zero = JNumber (Num (amount (Number_of env v)))"
  by (cases "ToNumber env v") (auto simp: js_or_def zero_def Number_of_def)

lemma amount_Number_of: "is_amount v \<Longrightarrow> amount (Number_of env v) = amount v"
  by (cases v rule: is_amount.cases) (auto simp: Number_of_def)


lemma js_add_Number_of:
  "js_add env (JNumber (Num a)) (js_or (Number_of env v) zero)
     = JNumber (Num (a + amount (Number_of env v)))"
  by (simp add: js_or_Number_of js_add_def)

lemma foldl_cm:
  "foldl (\<lambda>acc t. js_add env acc (js_or (Number_of env (valor_t t)) zero)) (JNumber (Num a)) rows
     = JNumber (Num (a + sum_list (map (\<lambda>t. amount (Number_of env (valor_t t))) rows)))"
proof (induction rows arbitrary: a)
  case Nil
  show ?case by simp
next
  case (Cons t rows)
  show ?case by (simp add: Cons.IH js_add_Number_of add.assoc)
qed

lemma total_cm_sum:
  "total_cm env rows = JNumber (Num (sum_list (map (\<lambda>t. amount (Number_of env (valor_t t))) rows)))"
  using foldl_cm [of env 0 rows] by (simp add: total_cm_def zero_def)

lemma of_kind_Some: "of_kind k (Some T) = of_tipo k T"
  by (simp add: of_kind_def of_tipo_def)

lemma total_cm_amounts:
  assumes "\<forall>t\<in>set T. is_amount (valor_t t)"
  shows "total_cm env (of_kind k (Some T)) = JNumber (Num (sum_amounts (of_tipo k T)))"
proof -
  have h: "map (\<lambda>t. amount (Number_of env (valor_t t))) (of_tipo k T)
      = map (\<lambda>t. amount (valor_t t)) (of_tipo k T)"
    using assms by (simp add: of_tipo_def amount_Number_of)
  show ?thesis
    by (simp add: total_cm_sum of_kind_Some sum_amounts_def h)
qed




section \<open>A row that adds nothing\<close>











section \<open>Rows of another kind\<close>

lemma total_of_other:
  assumes "tipo t \<noteq> JString k"
  shows "total_of env k (Some (xs @ t # ys)) = total_of env k (Some (xs @ ys))"
  using assms by (simp add: total_of_def)

lemma of_kind_other:
  assumes "tipo t \<noteq> JString k"
  shows "of_kind k (Some (xs @ t # ys)) = of_kind k (Some (xs @ ys))"
  using assms by (simp add: of_kind_def)

text \<open>
  Claim C9. A fetched transaction whose \<open>tipo\<close> is neither \<open>receita\<close> nor \<open>despesa\<close>
  adds nothing to either total or to the balance, in both dashboards; it is still counted
  in \<open>transacoesCount\<close> and kept in the list \<open>Dashboard.tsx\<close> displays (and in
  \<open>transacoesRecentes\<close> when it is among the first five rows). So the balance of a lone
  such row is 0, which is neither its amount nor the opposite when the amount is not 0.
\<close>

theorem other_kind_counted_not_summed:
  assumes "tipo t \<noteq> JString ''receita''" and "tipo t \<noteq> JString ''despesa''"
  shows "totalReceitas (newStats env (Some (xs @ t # ys)) ls) = totalReceitas (newStats env (Some (xs @ ys)) ls)
       \<and> totalDespesas (newStats env (Some (xs @ t # ys)) ls) = totalDespesas (newStats env (Some (xs @ ys)) ls)
       \<and> saldo (newStats env (Some (xs @ t # ys)) ls) = saldo (newStats env (Some (xs @ ys)) ls)
       \<and> transacoesCount (newStats env (Some (xs @ t # ys)) ls)
           = Suc (transacoesCount (newStats env (Some (xs @ ys)) ls))
       \<and> (error r = None \<longrightarrow> t \<in> set (transacoes (on_lembretes env (Some (xs @ t # ys)) r s)))
       \<and> totalReceitas_cm (newStats_cm env (Some (xs @ t # ys)) ls)
           = totalReceitas_cm (newStats_cm env (Some (xs @ ys)) ls)
       \<and> totalDespesas_cm (newStats_cm env (Some (xs @ t # ys)) ls)
           = totalDespesas_cm (newStats_cm env (Some (xs @ ys)) ls)
       \<and> saldo_cm (newStats_cm env (Some (xs @ t # ys)) ls)
           = saldo_cm (newStats_cm env (Some (xs @ ys)) ls)
       \<and> (length xs < 5 \<longrightarrow> t \<in> set (transacoesRecentes (newStats_cm env (Some (xs @ t # ys)) ls)))
       \<and> saldo (newStats env (Some [t]) ls) = JNumber (Num 0)
       \<and> saldo_cm (newStats_cm env (Some [t]) ls) = JNumber (Num 0)
       \<and> (amount (valor_t t) \<noteq> 0 \<longrightarrow>
            saldo (newStats env (Some [t]) ls) \<noteq> JNumber (Num (amount (valor_t t)))
          \<and> saldo (newStats env (Some [t]) ls) \<noteq> JNumber (Num (- amount (valor_t t))))"
proof -
  have 1: "total_of env k (Some (xs @ t # ys)) = total_of env k (Some (xs @ ys))"
    if "k = ''receita'' \<or> k = ''despesa''" for k
    using that assms total_of_other by blast
  have 2: "of_kind k (Some (xs @ t # ys)) = of_kind k (Some (xs @ ys))"
    if "k = ''receita'' \<or> k = ''despesa''" for k
    using that assms of_kind_other by blast
  have 3: "length xs < 5 \<Longrightarrow> t \<in> set (take 5 (xs @ t # ys))"
    by (cases "5 - length xs") auto
  have 4: "total_of env k (Some [t]) = JNumber (Num 0)"
    if "k = ''receita'' \<or> k = ''despesa''" for k
    using that assms by (auto simp: total_of_def js_or_def zero_def)
  have 5: "of_kind k (Some [t]) = []"
    if "k = ''receita'' \<or> k = ''despesa''" for k
    using that assms by (auto simp: of_kind_def)
  show ?thesis
    using 3 by (simp add: newStats_def newStats_cm_def Let_def 1 2 4 5 length_or_0_def on_lembretes_def
        rows_or_empty_def js_sub_def total_cm_def zero_def)
qed

theorem other_kind_counted_not_summed_witness:
  "tipo (example_row ''outro'' (JNumber (Num 5)) ''A'') \<noteq> JString ''receita''
   \<and> tipo (example_row ''outro'' (JNumber (Num 5)) ''A'') \<noteq> JString ''despesa''
   \<and> saldo (newStats digits_env (Some (example_rows @ [example_row ''outro'' (JNumber (Num 5)) ''A''])) None)
       = saldo (newStats digits_env (Some example_rows) None)
   \<and> transacoesCount
        (newStats digits_env (Some (example_rows @ [example_row ''outro'' (JNumber (Num 5)) ''A''])) None)
       = Suc (transacoesCount (newStats digits_env (Some example_rows) None))
   \<and> saldo (newStats digits_env (Some [example_row ''outro'' (JNumber (Num 5)) ''A'']) None)
       = JNumber (Num 0)"
proof -
  have a: "tipo (example_row ''outro'' (JNumber (Num 5)) ''A'') \<noteq> JString ''receita''"
    by (simp add: example_row_def)
  have b: "tipo (example_row ''outro'' (JNumber (Num 5)) ''A'') \<noteq> JString ''despesa''"
    by (simp add: example_row_def)
  show ?thesis
    using a b other_kind_counted_not_summed [OF a b, of digits_env example_rows "[]" None]
    by (simp only: append_Nil2) simp
qed

section \<open>One call from its start to its end\<close>

lemma has_id_Some: "has_id (Some u) = (user_id u \<noteq> [])"
  by (simp add: has_id_def opt_id_def)

lemma fetch_begin_user:
  "user_id u \<noteq> [] \<Longrightarrow>
   fetch_begin tz (Some u) m y s =
     (s\<lparr>loading := True, issued := issued s @ [first_query tz u y m]\<rparr>,
      Some (AwaitTransacoes (user_id u) (toISOString_day tz (startDate y m))
              (toISOString_day tz (endDate y m))))"
  by (simp add: fetch_begin_def has_id_Some first_query_def Let_def)

lemma fetch_first_fails:
  assumes "user_id u \<noteq> []" and "error (transacoes_table gw (first_query tz u y m)) = Some e"
  shows "fetchDashboardData env tz gw (Some u) m y s =
     s\<lparr>loading := False, issued := issued s @ [first_query tz u y m],
       console_errors := console_errors s @
         [''Dashboard: Error fetching transactions:'', ''Dashboard: Error loading data:''],
       toasts := toasts s @ [error_toast e]\<rparr>"
  using assms
  by (simp add: fetchDashboardData_def fetch_begin_user on_transacoes_def catch_finally_def
      first_query_def [symmetric])

lemma fetch_second_fails:
  assumes "user_id u \<noteq> []" and "error (transacoes_table gw (first_query tz u y m)) = None"
    and "error (lembretes_table gw (second_query tz u y m)) = Some e"
  shows "fetchDashboardData env tz gw (Some u) m y s =
     s\<lparr>loading := False, issued := issued s @ [first_query tz u y m, second_query tz u y m],
       console_errors := console_errors s @
         [''Dashboard: Error fetching lembretes:'', ''Dashboard: Error loading data:''],
       toasts := toasts s @ [error_toast e]\<rparr>"
  using assms
  by (simp add: fetchDashboardData_def fetch_begin_user on_transacoes_def on_lembretes_def
      catch_finally_def first_query_def [symmetric] second_query_def [symmetric])

lemma fetch_succeeds:
  assumes "user_id u \<noteq> []" and "error (transacoes_table gw (first_query tz u y m)) = None"
    and "error (lembretes_table gw (second_query tz u y m)) = None"
  shows "fetchDashboardData env tz gw (Some u) m y s =
     s\<lparr>loading := False, issued := issued s @ [first_query tz u y m, second_query tz u y m],
       transacoes := rows_or_empty (data (transacoes_table gw (first_query tz u y m))),
       lembretes := rows_or_empty (data (lembretes_table gw (second_query tz u y m))),
       stats := newStats env (data (transacoes_table gw (first_query tz u y m)))
                  (data (lembretes_table gw (second_query tz u y m)))\<rparr>"
  using assms
  by (simp add: fetchDashboardData_def fetch_begin_user on_transacoes_def on_lembretes_def
      first_query_def [symmetric] second_query_def [symmetric])

lemma fetch_cm_first_fails:
  assumes "error (transacoes_table gw (first_query_cm user d1)) = Some e"
  shows "fetchDashboardData_cm env d1 d2 gw user s =
     s\<lparr>loading_cm := False, issued := issued s @ [first_query_cm user d1],
       console_errors := console_errors s @ [''Erro ao carregar dados do dashboard:''],
       toasts := toasts s @ [error_toast_cm e]\<rparr>"
  using assms
  by (simp add: fetchDashboardData_cm_def Let_def catch_finally_cm_def first_query_cm_def [symmetric])

lemma fetch_cm_second_fails:
  assumes "error (transacoes_table gw (first_query_cm user d1)) = None"
    and "error (lembretes_table gw (second_query_cm user d2)) = Some e"
  shows "fetchDashboardData_cm env d1 d2 gw user s =
     s\<lparr>loading_cm := False,
       issued := issued s @ [first_query_cm user d1, second_query_cm user d2],
       console_errors := console_errors s @ [''Erro ao carregar dados do dashboard:''],
       toasts := toasts s @ [error_toast_cm e]\<rparr>"
  using assms
  by (simp add: fetchDashboardData_cm_def Let_def catch_finally_cm_def first_query_cm_def [symmetric]
      second_query_cm_def [symmetric])

lemma fetch_cm_succeeds:
  assumes "error (transacoes_table gw (first_query_cm user d1)) = None"
    and "error (lembretes_table gw (second_query_cm user d2)) = None"
  shows "fetchDashboardData_cm env d1 d2 gw user s =
     s\<lparr>loading_cm := False,
       issued := issued s @ [first_query_cm user d1, second_query_cm user d2],
       stats_cm := newStats_cm env (data (transacoes_table gw (first_query_cm user d1)))
                     (data (lembretes_table gw (second_query_cm user d2)))\<rparr>"
  using assms
  by (simp add: fetchDashboardData_cm_def Let_def first_query_cm_def [symmetric]
      second_query_cm_def [symmetric])

section \<open>A query that fails\<close>

lemma failed_query_Dashboard:
  assumes "user_id u \<noteq> []"
  shows "let r1 = transacoes_table gw (first_query tz u y m);
             r2 = lembretes_table gw (second_query tz u y m);
             s' = fetchDashboardData env tz gw (Some u) m y s
         in (error r1 = None \<and> error r2 = None \<longrightarrow>
               stats s' = newStats env (data r1) (data r2)
             \<and> transacoes s' = rows_or_empty (data r1)
             \<and> lembretes s' = rows_or_empty (data r2)
             \<and> toasts s' = toasts s)
          \<and> (\<forall>e. error r1 = Some e \<longrightarrow>
               stats s' = stats s \<and> transacoes s' = transacoes s \<and> lembretes s' = lembretes s
             \<and> toasts s' = toasts s @ [error_toast e]
             \<and> issued s' = issued s @ [first_query tz u y m])
          \<and> (\<forall>e. error r1 = None \<and> error r2 = Some e \<longrightarrow>
               stats s' = stats s \<and> transacoes s' = transacoes s \<and> lembretes s' = lembretes s
             \<and> toasts s' = toasts s @ [error_toast e]
             \<and> issued s' = issued s @ [first_query tz u y m, second_query tz u y m])"
  using assms
  by (simp add: Let_def fetch_first_fails fetch_second_fails fetch_succeeds)

lemma failed_query_Dashboard_cm:
  "let r1 = transacoes_table gw (first_query_cm user d1);
       r2 = lembretes_table gw (second_query_cm user d2);
       s' = fetchDashboardData_cm env d1 d2 gw user s
   in (error r1 = None \<and> error r2 = None \<longrightarrow>
         stats_cm s' = newStats_cm env (data r1) (data r2) \<and> toasts s' = toasts s)
    \<and> (\<forall>e. error r1 = Some e \<longrightarrow>
         stats_cm s' = stats_cm s \<and> toasts s' = toasts s @ [error_toast_cm e]
       \<and> issued s' = issued s @ [first_query_cm user d1])
    \<and> (\<forall>e. error r1 = None \<and> error r2 = Some e \<longrightarrow>
         stats_cm s' = stats_cm s \<and> toasts s' = toasts s @ [error_toast_cm e]
       \<and> issued s' = issued s @ [first_query_cm user d1, second_query_cm user d2])"
  by (simp add: Let_def fetch_cm_first_fails fetch_cm_second_fails fetch_cm_succeeds)

text \<open>
  Claim C5. A call of \<open>fetchDashboardData\<close>, in either dashboard, ends in one of three
  ways. When both queries succeed, the whole summary is replaced by the new one and no
  toast is shown. When the transactions query fails, the totals, the balance and the two
  lists stay as they were, exactly one toast is added, and the transactions query is the
  only query sent: the reminders query is not issued. When the reminders query fails, the
  summary stays as it was as well, and exactly one toast is added.
\<close>

theorem failed_query_keeps_state:
  assumes "user_id u \<noteq> []"
  shows "(let r1 = transacoes_table gw (first_query tz u y m);
             r2 = lembretes_table gw (second_query tz u y m);
             s' = fetchDashboardData env tz gw (Some u) m y s
         in (error r1 = None \<and> error r2 = None \<longrightarrow>
               stats s' = newStats env (data r1) (data r2)
             \<and> transacoes s' = rows_or_empty (data r1)
             \<and> lembretes s' = rows_or_empty (data r2)
             \<and> toasts s' = toasts s)
          \<and> (\<forall>e. error r1 = Some e \<longrightarrow>
               stats s' = stats s \<and> transacoes s' = transacoes s \<and> lembretes s' = lembretes s
             \<and> toasts s' = toasts s @ [error_toast e]
             \<and> issued s' = issued s @ [first_query tz u y m])
          \<and> (\<forall>e. error r1 = None \<and> error r2 = Some e \<longrightarrow>
               stats s' = stats s \<and> transacoes s' = transacoes s \<and> lembretes s' = lembretes s
             \<and> toasts s' = toasts s @ [error_toast e]
             \<and> issued s' = issued s @ [first_query tz u y m, second_query tz u y m]))
       \<and> (let r1 = transacoes_table gw' (first_query_cm user d1);
               r2 = lembretes_table gw' (second_query_cm user d2);
               s' = fetchDashboardData_cm env d1 d2 gw' user c
           in (error r1 = None \<and> error r2 = None \<longrightarrow>
                 stats_cm s' = newStats_cm env (data r1) (data r2) \<and> toasts s' = toasts c)
            \<and> (\<forall>e. error r1 = Some e \<longrightarrow>
                 stats_cm s' = stats_cm c \<and> toasts s' = toasts c @ [error_toast_cm e]
               \<and> issued s' = issued c @ [first_query_cm user d1])
            \<and> (\<forall>e. error r1 = None \<and> error r2 = Some e \<longrightarrow>
                 stats_cm s' = stats_cm c \<and> toasts s' = toasts c @ [error_toast_cm e]
               \<and> issued s' = issued c @ [first_query_cm user d1, second_query_cm user d2]))"
  using failed_query_Dashboard [OF assms] failed_query_Dashboard_cm by blast

theorem failed_query_keeps_state_witness:
  "user_id example_user \<noteq> []
   \<and> error (transacoes_table failing_gateway (first_query brasilia example_user 2024 3))
       = Some \<lparr>message = ''timeout''\<rparr>
   \<and> stats (fetchDashboardData digits_env brasilia failing_gateway (Some example_user) 3 2024
        (Dashboard_init 3 2024)) = stats (Dashboard_init 3 2024)
   \<and> transacoes (fetchDashboardData digits_env brasilia failing_gateway (Some example_user) 3 2024
        (Dashboard_init 3 2024)) = []
   \<and> toasts (fetchDashboardData digits_env brasilia failing_gateway (Some example_user) 3 2024
        (Dashboard_init 3 2024)) = [error_toast \<lparr>message = ''timeout''\<rparr>]
   \<and> issued (fetchDashboardData digits_env brasilia failing_gateway (Some example_user) 3 2024
        (Dashboard_init 3 2024)) = [first_query brasilia example_user 2024 3]"
proof -
  have u: "user_id example_user \<noteq> []"
    by (simp add: example_user_def)
  have e: "error (transacoes_table failing_gateway (first_query brasilia example_user 2024 3))
       = Some \<lparr>message = ''timeout''\<rparr>"
    by (simp add: failing_gateway_def failure_def)
  have i: "transacoes (Dashboard_init 3 2024) = [] \<and> toasts (Dashboard_init 3 2024) = []
      \<and> issued (Dashboard_init 3 2024) = []"
    by (simp add: Dashboard_init_def)
  show ?thesis
    using u e i failed_query_keeps_state [OF u, THEN conjunct1, of failing_gateway brasilia 2024 3
        digits_env "Dashboard_init 3 2024"]
    by (simp add: Let_def)
qed

section \<open>No user\<close>

text \<open>
  Claim C6, evaluated on the code. When the component mounts without a user, the effect
  sends no query and leaves the zero-valued initial state untouched; but \<open>loading\<close> was
  initialised to \<open>True\<close> and only \<open>fetchDashboardData\<close> resets it, which the effect
  does not call without a user. So the component shows the loading skeleton, not the
  \<open>UserNotFound\<close> panel. The panel would show after the guard of lines 63 to 67, which
  the effect never reaches.
\<close>

theorem no_user_stays_loading:
  "useEffect env tz gw None (Dashboard_init m y) = Dashboard_init m y
   \<and> issued (useEffect env tz gw None (Dashboard_init m y)) = []
   \<and> stats (useEffect env tz gw None (Dashboard_init m y))
       = \<lparr>totalReceitas = JNumber (Num 0), totalDespesas = JNumber (Num 0),
          saldo = JNumber (Num 0), transacoesCount = 0, lembretesCount = 0\<rparr>
   \<and> render None (useEffect env tz gw None (Dashboard_init m y)) = LoadingSkeleton
   \<and> render None (fst (fetch_begin tz None m y (Dashboard_init m y))) = UserNotFound"
  by (simp add: useEffect_def has_id_def opt_id_def Dashboard_init_def render_def zero_def
      fetch_begin_def)

section \<open>Rows of another owner\<close>

text \<open>
  Claim C3, as amended. The owner is filtered by the remote query alone: each of the two
  queries a call sends carries the filter \<open>eq('userid', id)\<close> of the user, in both
  dashboards. The aggregation has no owner filter of its own: the lists and the totals
  are computed from all the rows the gateway answers with.
\<close>

theorem owner_filter_only_in_query:
  assumes "user_id u \<noteq> []"
    and "error (transacoes_table gw (first_query tz u y m)) = None"
    and "error (lembretes_table gw (second_query tz u y m)) = None"
    and "error (transacoes_table gw' (first_query_cm user da)) = None"
    and "error (lembretes_table gw' (second_query_cm user db)) = None"
  shows "issued (fetchDashboardData env tz gw (Some u) m y s)
           = issued s @ [first_query tz u y m, second_query tz u y m]
       \<and> Eq ''userid'' (JString (user_id u)) \<in> set (filters (first_query tz u y m))
       \<and> Eq ''userid'' (JString (user_id u)) \<in> set (filters (second_query tz u y m))
       \<and> transacoes (fetchDashboardData env tz gw (Some u) m y s)
           = rows_or_empty (data (transacoes_table gw (first_query tz u y m)))
       \<and> lembretes (fetchDashboardData env tz gw (Some u) m y s)
           = rows_or_empty (data (lembretes_table gw (second_query tz u y m)))
       \<and> stats (fetchDashboardData env tz gw (Some u) m y s)
           = newStats env (data (transacoes_table gw (first_query tz u y m)))
               (data (lembretes_table gw (second_query tz u y m)))
       \<and> issued (fetchDashboardData_cm env da db gw' user c)
           = issued c @ [first_query_cm user da, second_query_cm user db]
       \<and> Eq ''userid'' (opt_id user) \<in> set (filters (first_query_cm user da))
       \<and> Eq ''userid'' (opt_id user) \<in> set (filters (second_query_cm user db))
       \<and> stats_cm (fetchDashboardData_cm env da db gw' user c)
           = newStats_cm env (data (transacoes_table gw' (first_query_cm user da)))
               (data (lembretes_table gw' (second_query_cm user db)))"
  using assms
  by (simp add: fetch_succeeds fetch_cm_succeeds)
     (simp add: first_query_def second_query_def first_query_cm_def second_query_cm_def
        transacoes_query_def lembretes_query_def transacoes_query_cm_def lembretes_query_cm_def)

lemma example_gateway_ok:
  "error (transacoes_table (example_gateway rows) q) = None"
  "error (lembretes_table (example_gateway rows) q) = None"
  "data (transacoes_table (example_gateway rows) q) = Some rows"
  "data (lembretes_table (example_gateway rows) q) = Some []"
  by (simp_all add: example_gateway_def answer_def)

theorem owner_filter_only_in_query_witness:
  "user_id example_user \<noteq> []
   \<and> issued (fetchDashboardData digits_env brasilia (example_gateway example_rows) (Some example_user)
        3 2024 (Dashboard_init 3 2024))
       = [first_query brasilia example_user 2024 3, second_query brasilia example_user 2024 3]
   \<and> transacoes (fetchDashboardData digits_env brasilia (example_gateway example_rows)
        (Some example_user) 3 2024 (Dashboard_init 3 2024)) = example_rows
   \<and> transacoesRecentes (stats_cm (fetchDashboardData_cm digits_env (2024, 4, 15) (2024, 4, 15)
        (example_gateway example_rows) (Some example_user) Dashboard_cm_init)) = example_rows"
proof -
  have u: "user_id example_user \<noteq> []"
    by (simp add: example_user_def)
  have i: "issued (Dashboard_init 3 2024) = []"
    by (simp add: Dashboard_init_def)
  have t: "take 5 example_rows = example_rows"
    by (simp add: example_rows_def)
  show ?thesis
    using u i owner_filter_only_in_query [where u = example_user
          and gw = "example_gateway example_rows" and tz = brasilia and y = 2024 and m = 3
          and gw' = "example_gateway example_rows" and user = "Some example_user"
          and da = "(2024, 4, 15)" and db = "(2024, 4, 15)" and env = digits_env
          and s = "Dashboard_init 3 2024" and c = Dashboard_cm_init,
        OF u example_gateway_ok(1) example_gateway_ok(2) example_gateway_ok(1) example_gateway_ok(2)]
    by (simp add: example_gateway_ok rows_or_empty_def newStats_cm_def Let_def t)
qed

text \<open>
  Claim C3 as stated fails: when the answer to the query of user \<open>A\<close> holds a row of
  user \<open>B\<close>, that row is displayed and its amount is in the total of the receipts, which
  changes from 10 to 15, in both dashboards.
\<close>

theorem other_owner_rows_are_summed:
  "rowB \<in> set (transacoes (fetchDashboardData digits_env brasilia
        (example_gateway (example_rows @ [rowB])) (Some example_user) 3 2024 (Dashboard_init 3 2024)))
   \<and> userid_t rowB = JString ''B''
   \<and> user_id example_user = ''A''
   \<and> totalReceitas (stats (fetchDashboardData digits_env brasilia
        (example_gateway (example_rows @ [rowB])) (Some example_user) 3 2024 (Dashboard_init 3 2024)))
       = JNumber (Num 15)
   \<and> totalReceitas (stats (fetchDashboardData digits_env brasilia
        (example_gateway example_rows) (Some example_user) 3 2024 (Dashboard_init 3 2024)))
       = JNumber (Num 10)
   \<and> totalReceitas_cm (stats_cm (fetchDashboardData_cm digits_env (2024, 4, 15) (2024, 4, 15)
        (example_gateway (example_rows @ [rowB])) (Some example_user) Dashboard_cm_init))
       = JNumber (Num 15)
   \<and> totalReceitas_cm (stats_cm (fetchDashboardData_cm digits_env (2024, 4, 15) (2024, 4, 15)
        (example_gateway example_rows) (Some example_user) Dashboard_cm_init))
       = JNumber (Num 10)"
proof -
  have u: "user_id example_user \<noteq> []"
    by (simp add: example_user_def)
  have a: "\<forall>t\<in>set (example_rows @ [rowB]). is_amount (valor_t t)"
    by (simp add: example_rows_def example_row_def rowB_def)
  have b: "\<forall>t\<in>set example_rows. is_amount (valor_t t)"
    by (simp add: example_rows_def example_row_def)
  have 1: "sum_amounts (of_tipo ''receita'' (example_rows @ [rowB])) = 15"
    by (simp add: sum_amounts_def of_tipo_def example_rows_def example_row_def rowB_def)
  have 2: "sum_amounts (of_tipo ''receita'' example_rows) = 10"
    by (simp add: sum_amounts_def of_tipo_def example_rows_def example_row_def)
  show ?thesis
    by (simp add: fetch_succeeds [OF u] fetch_cm_succeeds example_gateway_ok rows_or_empty_def
        newStats_def newStats_cm_def Let_def total_of_amounts [OF a] total_of_amounts [OF b]
        total_cm_amounts [OF a] total_cm_amounts [OF b] 1 2)
       (simp add: rowB_def example_row_def example_user_def)
qed

section \<open>How many rows are kept\<close>

text \<open>
  Claim C4, as amended. In the current-month dashboard \<open>transacoesRecentes\<close> is the
  first five rows of the answer to the transactions query: its length is the minimum of 5
  and the number of rows, and it is a prefix of the answer, in the order the gateway gave
  (the query asks for \<open>created_at\<close> descending); \<open>lembretesProximos\<close> is the whole
  answer to the reminders query, which asks for \<open>data\<close> ascending and at most 5 rows.
  In \<open>Dashboard.tsx\<close> nothing is truncated: all the rows of both answers are kept and
  counted, and the queries ask for \<open>quando\<close> descending and \<open>data\<close> ascending with no
  limit. Neither component sorts.
\<close>

theorem lists_as_answered:
  assumes "user_id u \<noteq> []"
    and "error (transacoes_table gw (first_query tz u y m)) = None"
    and "error (lembretes_table gw (second_query tz u y m)) = None"
    and "error (transacoes_table gw' (first_query_cm user da)) = None"
    and "error (lembretes_table gw' (second_query_cm user db)) = None"
  shows "transacoesRecentes (stats_cm (fetchDashboardData_cm env da db gw' user c))
           = take 5 (rows_or_empty (data (transacoes_table gw' (first_query_cm user da))))
       \<and> length (transacoesRecentes (stats_cm (fetchDashboardData_cm env da db gw' user c)))
           = min 5 (length (rows_or_empty (data (transacoes_table gw' (first_query_cm user da)))))
       \<and> rows_or_empty (data (transacoes_table gw' (first_query_cm user da)))
           = transacoesRecentes (stats_cm (fetchDashboardData_cm env da db gw' user c))
             @ drop 5 (rows_or_empty (data (transacoes_table gw' (first_query_cm user da))))
       \<and> lembretesProximos (stats_cm (fetchDashboardData_cm env da db gw' user c))
           = rows_or_empty (data (lembretes_table gw' (second_query_cm user db)))
       \<and> order_by (first_query_cm user da) = Some (''created_at'', False)
       \<and> row_limit (first_query_cm user da) = None
       \<and> order_by (second_query_cm user db) = Some (''data'', True)
       \<and> row_limit (second_query_cm user db) = Some 5
       \<and> transacoes (fetchDashboardData env tz gw (Some u) m y s)
           = rows_or_empty (data (transacoes_table gw (first_query tz u y m)))
       \<and> transacoesCount (stats (fetchDashboardData env tz gw (Some u) m y s))
           = length (rows_or_empty (data (transacoes_table gw (first_query tz u y m))))
       \<and> lembretes (fetchDashboardData env tz gw (Some u) m y s)
           = rows_or_empty (data (lembretes_table gw (second_query tz u y m)))
       \<and> order_by (first_query tz u y m) = Some (''quando'', False)
       \<and> row_limit (first_query tz u y m) = None
       \<and> order_by (second_query tz u y m) = Some (''data'', True)
       \<and> row_limit (second_query tz u y m) = None"
proof -
  have q: "order_by (first_query_cm user da) = Some (''created_at'', False)
       \<and> row_limit (first_query_cm user da) = None
       \<and> order_by (second_query_cm user db) = Some (''data'', True)
       \<and> row_limit (second_query_cm user db) = Some 5
       \<and> order_by (first_query tz u y m) = Some (''quando'', False)
       \<and> row_limit (first_query tz u y m) = None
       \<and> order_by (second_query tz u y m) = Some (''data'', True)
       \<and> row_limit (second_query tz u y m) = None"
    by (simp add: first_query_def second_query_def first_query_cm_def second_query_cm_def
        transacoes_query_def lembretes_query_def transacoes_query_cm_def lembretes_query_cm_def)
  have r: "(case ts of None \<Rightarrow> [] | Some rows \<Rightarrow> take 5 rows) = take 5 (rows_or_empty ts)"
    for ts :: "'b list option"
    by (cases ts) (simp_all add: rows_or_empty_def)
  have l: "length_or_0 ts = length (rows_or_empty ts)" for ts :: "'b list option"
    by (cases ts) (simp_all add: rows_or_empty_def length_or_0_def)
  show ?thesis
    using assms q
    by (simp add: fetch_succeeds fetch_cm_succeeds newStats_cm_def newStats_def Let_def r l)
qed

theorem lists_as_answered_witness:
  "user_id example_user \<noteq> []
   \<and> transacoesRecentes (stats_cm (fetchDashboardData_cm digits_env (2024, 4, 15) (2024, 4, 15)
        (example_gateway six_rows) (Some example_user) Dashboard_cm_init)) = take 5 six_rows
   \<and> length (transacoesRecentes (stats_cm (fetchDashboardData_cm digits_env (2024, 4, 15)
        (2024, 4, 15) (example_gateway six_rows) (Some example_user) Dashboard_cm_init))) = 5
   \<and> transacoes (fetchDashboardData digits_env brasilia (example_gateway six_rows)
        (Some example_user) 3 2024 (Dashboard_init 3 2024)) = six_rows"
proof -
  have u: "user_id example_user \<noteq> []"
    by (simp add: example_user_def)
  have n: "length six_rows = 6"
    by (simp add: six_rows_def)
  show ?thesis
    using u n lists_as_answered [where u = example_user
          and gw = "example_gateway six_rows" and tz = brasilia and y = 2024 and m = 3
          and gw' = "example_gateway six_rows" and user = "Some example_user"
          and da = "(2024, 4, 15)" and db = "(2024, 4, 15)" and env = digits_env
          and s = "Dashboard_init 3 2024" and c = Dashboard_cm_init,
        OF u example_gateway_ok(1) example_gateway_ok(2) example_gateway_ok(1) example_gateway_ok(2)]
    by (simp add: example_gateway_ok rows_or_empty_def)
qed

text \<open>
  Claim C4 as stated fails in \<open>Dashboard.tsx\<close>: of six fetched transactions all six are
  kept and counted, not five.
\<close>

theorem all_rows_are_kept:
  "length six_rows = 6
   \<and> min 5 (length six_rows) = 5
   \<and> length (transacoes (fetchDashboardData digits_env brasilia (example_gateway six_rows)
        (Some example_user) 3 2024 (Dashboard_init 3 2024))) = 6
   \<and> transacoesCount (stats (fetchDashboardData digits_env brasilia (example_gateway six_rows)
        (Some example_user) 3 2024 (Dashboard_init 3 2024))) = 6"
proof -
  have u: "user_id example_user \<noteq> []"
    by (simp add: example_user_def)
  have n: "length six_rows = 6"
    by (simp add: six_rows_def)
  show ?thesis
    by (simp add: fetch_succeeds [OF u] example_gateway_ok rows_or_empty_def newStats_def Let_def
        length_or_0_def n)
qed

section \<open>Errors of the profile query\<close>

text \<open>
  Claim C10, as amended. \<open>fetchProfile\<close> never throws to its caller. When the profile
  query returns an error, the error is logged and nothing else changes: the query is sent,
  one line goes to the console, no toast is shown and the profile the component holds is
  the one it held before. Without an error the profile becomes the row of the answer. The
  component renders nothing exactly when it holds no profile; so after an error on a
  component that held none, it renders nothing.
\<close>

theorem profile_error_is_swallowed:
  "\<not> threw (fetchProfile tbl user s)
   \<and> (\<forall>e. single_error (tbl (profiles_query (opt_id user))) = Some e \<longrightarrow>
        state_of (fetchProfile tbl user s)
          = s\<lparr>issued := issued s @ [profiles_query (opt_id user)],
              console_errors := console_errors s @ [''Erro ao carregar perfil:'']\<rparr>
      \<and> profile (state_of (fetchProfile tbl user s)) = profile s
      \<and> toasts (state_of (fetchProfile tbl user s)) = toasts s)
   \<and> (single_error (tbl (profiles_query (opt_id user))) = None \<longrightarrow>
        state_of (fetchProfile tbl user s)
          = s\<lparr>issued := issued s @ [profiles_query (opt_id user)],
              profile := single_data (tbl (profiles_query (opt_id user)))\<rparr>)
   \<and> (render_profile s' = Null) = (profile s' = None)
   \<and> (\<forall>e. single_error (tbl (profiles_query (opt_id user))) = Some e \<and> profile s = None \<longrightarrow>
        render_profile (state_of (fetchProfile tbl user s)) = Null)"
  by (cases "single_error (tbl (profiles_query (opt_id user)))")
     (auto simp: fetchProfile_def fetchProfile_try_def Let_def render_profile_def
        split: option.splits)

theorem profile_error_is_swallowed_witness:
  "single_error (failing_profiles (profiles_query (opt_id (Some example_user))))
     = Some \<lparr>message = ''timeout''\<rparr>
   \<and> profile UserProfile_init = None
   \<and> \<not> threw (fetchProfile failing_profiles (Some example_user) UserProfile_init)
   \<and> render_profile (state_of (fetchProfile failing_profiles (Some example_user) UserProfile_init))
       = Null
   \<and> console_errors (state_of (fetchProfile failing_profiles (Some example_user) UserProfile_init))
       = [''Erro ao carregar perfil:'']"
proof -
  have e: "single_error (failing_profiles (profiles_query (opt_id (Some example_user))))
     = Some \<lparr>message = ''timeout''\<rparr>"
    by (simp add: failing_profiles_def)
  have p: "profile UserProfile_init = None \<and> console_errors UserProfile_init = []"
    by (simp add: UserProfile_init_def)
  show ?thesis
    using e p profile_error_is_swallowed [of failing_profiles "Some example_user" UserProfile_init
        UserProfile_init]
    by (simp add: render_profile_def)
qed

text \<open>
  Claim C10 as stated fails for a component that already holds a profile (the effect runs
  again whenever the user object changes): when that query returns an error, the profile
  loaded before is still rendered.
\<close>

theorem stale_profile_stays_on_error:
  "single_error (failing_profiles (profiles_query (opt_id (Some example_user))))
     = Some \<lparr>message = ''timeout''\<rparr>
   \<and> render_profile (state_of (fetchProfile failing_profiles (Some example_user)
        (UserProfile_init\<lparr>profile := Some example_profile\<rparr>))) = ProfileLink example_profile
   \<and> ProfileLink example_profile \<noteq> Null"
  by (simp add: failing_profiles_def fetchProfile_def fetchProfile_try_def Let_def render_profile_def)

section \<open>Answers out of order\<close>

text \<open>
  A call that no other call overlaps is \<open>fetchDashboardData\<close> run to its end: the
  schedule of the effect followed by the two answers of the gateway gives the same state.
\<close>

lemma run_alone:
  assumes "user_id u \<noteq> []"
  shows "fst (run env tz
           [Run_effect (Some u),
            Answer_transacoes (length calls)
              (transacoes_table gw (first_query tz u (filterYear s) (filterMonth s))),
            Answer_lembretes (length calls)
              (lembretes_table gw (second_query tz u (filterYear s) (filterMonth s)))]
           (s, calls))
       = useEffect env tz gw (Some u) s"
proof (cases "error (transacoes_table gw (first_query tz u (filterYear s) (filterMonth s)))")
  case None
  then show ?thesis
    using assms
    by (simp add: run_def useEffect_def has_id_Some fetchDashboardData_def fetch_begin_def
        on_transacoes_def first_query_def second_query_def Let_def)
next
  case (Some e)
  then show ?thesis
    using assms
    by (simp add: run_def useEffect_def has_id_Some fetchDashboardData_def fetch_begin_def
        on_transacoes_def first_query_def second_query_def Let_def)
qed




section \<open>Dates written in ISO form keep their order\<close>



















section \<open>The range of a month\<close>











section \<open>The range of the current month\<close>




section \<open>The last day of the month\<close>



end
